theory Spec2Isabelle
  imports Complex_Main "HOL-Library.AList"
begin

section \<open>Numbers, clock and identifiers\<close>

text \<open>
  The plugin computes with JavaScript numbers. They are modelled as real numbers, so
  every result below is about the exact arithmetic of the formulas and not about the
  last bits of an IEEE double. The one non-real value that the code can really produce,
  \<open>NaN\<close> (square root or logarithm of a negative number), is written out: a number
  that may be \<open>NaN\<close> has type \<open>real option\<close> and \<open>None\<close> is \<open>NaN\<close>.
  Counters are natural numbers, timestamps (milliseconds, \<open>Date.now()\<close>) are integers
  and are passed in as arguments. File paths are strings.
\<close>

type_synonym timestamp = int

section \<open>Memory strength (\<open>DataManager\<close>, spaced repetition)\<close>

record MemoryStrengthData =
  EF :: real
  consecutiveSuccess :: nat
  consecutiveFailures :: nat
  lastTestResult :: bool
  historicalSuccessRate :: "real list"
  lastReviewTime :: "timestamp option"

type_synonym memoryData = "string \<rightharpoonup> MemoryStrengthData"

text \<open>
  The object literal that \<open>calculateMemoryStrength\<close> falls back to when a path has no
  entry. It has no \<open>lastTestResult\<close> and no \<open>lastReviewTime\<close>: reading the first
  gives \<open>undefined\<close>, which the \<open>if\<close> treats as false.
\<close>

definition fallbackMemory :: MemoryStrengthData where
  "fallbackMemory =
     \<lparr>EF = 2.5, consecutiveSuccess = 0, consecutiveFailures = 0, lastTestResult = False,
      historicalSuccessRate = [], lastReviewTime = None\<rparr>"

text \<open>\<open>xs.reduce((a,b)=>a+b, 0)\<close>\<close>

definition reduceSum :: "real list \<Rightarrow> real" where
  "reduceSum xs = foldl (+) 0 xs"

definition successRateOf :: "real list \<Rightarrow> real" where
  "successRateOf h = (if length h > 0 then reduceSum h / real (length h) else 0.7)"

text \<open>
  The easiness factor written back into \<open>data.EF\<close>:
  \<open>Math.min(2.5, Math.max(1.3, beta * 0.8 / (alpha + beta)))\<close>.
\<close>

definition recomputeEF :: "real list \<Rightarrow> real" where
  "recomputeEF h =
     (let successRate = successRateOf h;
          alpha = successRate * 10;
          beta = (1 - successRate) * 10
      in min 2.5 (max 1.3 (beta * 0.8 / (alpha + beta))))"

definition strengthOf :: "MemoryStrengthData \<Rightarrow> real" where
  "strengthOf d =
     (if lastTestResult d
      then EF d * (1 + 0.2 * ln (real (consecutiveSuccess d) + 1))
      else max 1 (EF d * 0.6 * (1 - 0.1 * real (consecutiveFailures d))))"

text \<open>
  \<open>calculateMemoryStrength\<close>. \<open>dataAfterEF\<close> is the object \<open>data\<close> of the source
  after the assignment to \<open>data.EF\<close>: the stored entry, or the fallback literal when
  the path has none. The function returns the strength and, because the assignment
  mutates a stored entry in place, the updated store; the fallback object is a
  temporary and leaves the store unchanged.
\<close>

definition dataAfterEF :: "memoryData \<Rightarrow> string \<Rightarrow> MemoryStrengthData" where
  "dataAfterEF md filePath =
     (let d = (case md filePath of None \<Rightarrow> fallbackMemory | Some d \<Rightarrow> d)
      in d\<lparr>EF := recomputeEF (historicalSuccessRate d)\<rparr>)"

definition calculateMemoryStrength :: "memoryData \<Rightarrow> string \<Rightarrow> real \<times> memoryData" where
  "calculateMemoryStrength md filePath =
     (let d = dataAfterEF md filePath
      in (strengthOf d, case md filePath of None \<Rightarrow> md | Some _ \<Rightarrow> md(filePath \<mapsto> d)))"

text \<open>
  \<open>updateTestResult\<close>: creates the entry when it is missing, records the outcome and
  the streaks, and maintains the window of the last outcomes (\<open>shift\<close> drops the first
  element, \<open>push\<close> appends).
\<close>

definition freshMemory :: "timestamp \<Rightarrow> MemoryStrengthData" where
  "freshMemory now =
     \<lparr>EF = 2.5, consecutiveSuccess = 0, consecutiveFailures = 0, lastTestResult = False,
      historicalSuccessRate = [], lastReviewTime = Some now\<rparr>"

definition pushOutcome :: "real list \<Rightarrow> bool \<Rightarrow> real list" where
  "pushOutcome h isCorrect =
     (if length h \<ge> 100 then tl h else h) @ [if isCorrect then 1 else 0]"

definition updateTestResult :: "memoryData \<Rightarrow> string \<Rightarrow> bool \<Rightarrow> timestamp \<Rightarrow> memoryData" where
  "updateTestResult md filePath isCorrect now =
     (let d0 = (case md filePath of None \<Rightarrow> freshMemory now | Some d \<Rightarrow> d);
          d1 = d0\<lparr>lastReviewTime := Some now, lastTestResult := isCorrect\<rparr>;
          d2 = (if isCorrect
                then d1\<lparr>consecutiveSuccess := consecutiveSuccess d1 + 1, consecutiveFailures := 0\<rparr>
                else d1\<lparr>consecutiveFailures := consecutiveFailures d1 + 1, consecutiveSuccess := 0\<rparr>)
      in md(filePath \<mapsto> d2\<lparr>historicalSuccessRate := pushOutcome (historicalSuccessRate d2) isCorrect\<rparr>))"

text \<open>A run of recorded outcomes, each with the path, the verdict and the time of the call.\<close>

fun recordOutcomes :: "(string \<times> bool \<times> timestamp) list \<Rightarrow> memoryData \<Rightarrow> memoryData" where
  "recordOutcomes [] md = md"
| "recordOutcomes ((filePath, isCorrect, now) # rest) md =
     recordOutcomes rest (updateTestResult md filePath isCorrect now)"

section \<open>Cognitive weight (\<open>DataManager\<close>)\<close>

record MyPluginSettings =
  decayLambda :: real
  betaCoefficient :: real
  initialWeight_setting :: real
  alpha :: real

definition DEFAULT_SETTINGS :: MyPluginSettings where
  "DEFAULT_SETTINGS =
     \<lparr>decayLambda = 0.05, betaCoefficient = 0.2, initialWeight_setting = 0.5, alpha = 1\<rparr>"

text \<open>
  One entry of \<open>CognitiveWeightData\<close>. \<open>initialWeight\<close> is the stored base weight; it
  can hold \<open>NaN\<close> (\<open>None\<close>) once \<open>applyDailyDecay\<close> has written one.
  \<open>previousEngagement\<close> is an optional field (\<open>None\<close>: absent).
\<close>

record WeightEntry =
  initialWeight :: "real option"
  lastUpdated :: timestamp
  interactionCount :: nat
  previousEngagement :: "real option"

text \<open>
  The object \<open>this.data\<close>, in insertion order (the order of \<open>for ... in\<close>): an association
  list, read with \<open>map_of\<close> and written with \<open>AList.update\<close>, which replaces the value
  of a key in place and appends a new key at the end.
\<close>

type_synonym weightData = "(string \<times> WeightEntry) list"

definition dayMs :: real where
  "dayMs = 1000 * 60 * 60 * 24"

text \<open>
  \<open>Number(x.toFixed(2))\<close>: the nearest multiple of 0.01, a tie going to the larger
  magnitude (\<open>toFixed\<close> rounds the absolute value and puts the sign back).
\<close>

definition toFixed2 :: "real \<Rightarrow> real" where
  "toFixed2 x =
     (if x < 0 then - (of_int (round (- x * 100)) / 100) else of_int (round (x * 100)) / 100)"

text \<open>
  The seasonal decay rate. \<open>startOfYear\<close> is the timestamp of
  \<open>new Date(new Date().getFullYear(), 0, 0)\<close>, which the calendar of the host gives;
  it is an argument next to \<open>now\<close>.
\<close>

definition dayOfYear :: "timestamp \<Rightarrow> timestamp \<Rightarrow> int" where
  "dayOfYear now startOfYear = \<lfloor>of_int (now - startOfYear) / dayMs\<rfloor>"

definition seasonalLambda :: "MyPluginSettings \<Rightarrow> timestamp \<Rightarrow> timestamp \<Rightarrow> real" where
  "seasonalLambda s now startOfYear =
     decayLambda s + 0.01 * sin (2 * pi * of_int (dayOfYear now startOfYear) / 365)"

definition interactionBoost :: "MyPluginSettings \<Rightarrow> nat \<Rightarrow> real" where
  "interactionBoost s N =
     (let beta = betaCoefficient s * (1 + 0.5 * tanh ((real N - 3) / 2))
      in beta * (1 - 1 / (1 + log 2 (real N + 1))))"

text \<open>
  \<open>calculateCurrentWeight\<close>. A path without entry gives 0. \<open>Math.sqrt\<close> of a negative
  \<open>daysElapsed\<close> (an entry stamped later than \<open>now\<close>) is \<open>NaN\<close>, and so is every
  product with a stored \<open>NaN\<close>; \<open>Number(NaN.toFixed(2))\<close> is \<open>NaN\<close> again.
\<close>

definition calculateCurrentWeight ::
  "MyPluginSettings \<Rightarrow> weightData \<Rightarrow> string \<Rightarrow> timestamp \<Rightarrow> timestamp \<Rightarrow> real option" where
  "calculateCurrentWeight s dat filePath now startOfYear =
     (case map_of dat filePath of
        None \<Rightarrow> Some 0
      | Some e \<Rightarrow>
          (let daysElapsed = of_int (now - lastUpdated e) / dayMs;
               lambda = seasonalLambda s now startOfYear
           in case initialWeight e of
                None \<Rightarrow> None
              | Some w \<Rightarrow>
                  if daysElapsed < 0 then None
                  else (let sqrtDays = sqrt daysElapsed;
                            timeDecay = alpha s * w * exp (- lambda * sqrtDays)
                        in Some (toFixed2 (timeDecay + interactionBoost s (interactionCount e))))))"

text \<open>
  \<open>updateInteraction\<close>: creates the entry with the configured initial weight when the
  path is new, then counts the interaction and stamps it.
\<close>

definition updateInteraction ::
  "MyPluginSettings \<Rightarrow> timestamp \<Rightarrow> weightData \<Rightarrow> string \<Rightarrow> weightData" where
  "updateInteraction s now dat filePath =
     (let e = (case map_of dat filePath of
                 None \<Rightarrow> \<lparr>initialWeight = Some (initialWeight_setting s), lastUpdated = now,
                          interactionCount = 0, previousEngagement = Some 0\<rparr>
               | Some e \<Rightarrow> e)
      in AList.update filePath
           (e\<lparr>interactionCount := interactionCount e + 1, lastUpdated := now\<rparr>) dat)"

text \<open>
  \<open>applyDailyDecay\<close>: the loop over the keys of \<open>this.data\<close>. Each round reads the
  current weight of the path from the store as it is at that moment, commits it as the
  new base, resets the counter and stamps the entry with the \<open>now\<close> of the batch. The
  batch is taken to run within one clock tick, so \<open>calculateCurrentWeight\<close> sees the
  same \<open>now\<close>.
\<close>

fun decayLoop ::
  "MyPluginSettings \<Rightarrow> timestamp \<Rightarrow> timestamp \<Rightarrow> string list \<Rightarrow> weightData \<Rightarrow> weightData" where
  "decayLoop s now startOfYear [] dat = dat"
| "decayLoop s now startOfYear (filePath # rest) dat =
     decayLoop s now startOfYear rest
       (case map_of dat filePath of
          None \<Rightarrow> dat
        | Some e \<Rightarrow>
            AList.update filePath
              (e\<lparr>initialWeight := calculateCurrentWeight s dat filePath now startOfYear,
                 interactionCount := 0, lastUpdated := now\<rparr>) dat)"

definition applyDailyDecay ::
  "MyPluginSettings \<Rightarrow> timestamp \<Rightarrow> timestamp \<Rightarrow> weightData \<Rightarrow> weightData" where
  "applyDailyDecay s now startOfYear dat = decayLoop s now startOfYear (map fst dat) dat"

text \<open>
  What happens to the weight store, in order: an interaction with a file, or a run of the
  daily decay (with the \<open>now\<close> and the start of the year of that moment).
\<close>

datatype managerEvent = Interaction string timestamp | DailyDecay timestamp timestamp

fun replay :: "MyPluginSettings \<Rightarrow> managerEvent list \<Rightarrow> weightData \<Rightarrow> weightData" where
  "replay s [] dat = dat"
| "replay s (Interaction filePath now # rest) dat =
     replay s rest (updateInteraction s now dat filePath)"
| "replay s (DailyDecay now startOfYear # rest) dat =
     replay s rest (applyDailyDecay s now startOfYear dat)"

text \<open>
  Three edits of one note and a daily decay, all at the same instant (14 November 2023,
  with the start of the year at 31 December 2022, both UTC).
\<close>

definition editThenDecay :: "managerEvent list" where
  "editThenDecay =
     [Interaction ''note.md'' 1700000000000, Interaction ''note.md'' 1700000000000,
      Interaction ''note.md'' 1700000000000, DailyDecay 1700000000000 1672444800000]"

definition sampleData :: weightData where
  "sampleData =
     [(''note.md'', \<lparr>initialWeight = Some 0.5, lastUpdated = 1700000000000,
                     interactionCount = 0, previousEngagement = None\<rparr>)]"

text \<open>
  The same note after five interactions, and a note of base weight 1 that was last
  touched on 14 September 2017.
\<close>

definition busySampleData :: weightData where
  "busySampleData =
     [(''note.md'', \<lparr>initialWeight = Some 0.5, lastUpdated = 1700000000000,
                     interactionCount = 5, previousEngagement = None\<rparr>)]"

definition agedData :: weightData where
  "agedData =
     [(''note.md'', \<lparr>initialWeight = Some 1, lastUpdated = 1505347200000,
                     interactionCount = 0, previousEngagement = None\<rparr>)]"


section \<open>Due files (\<open>MyPlugin.getDueFiles\<close>)\<close>

text \<open>
  The three conditions of the filter, for one file. \<open>data\<close> is the stored memory entry
  (\<open>getMemoryData\<close>), possibly absent: \<open>data?.consecutiveSuccess < 3\<close> and the comparison
  on the filtered window are false when it is (\<open>undefined < 3\<close>). A \<open>NaN\<close> weight
  compares false.
\<close>

definition daysSinceLastReview :: "memoryData \<Rightarrow> string \<Rightarrow> timestamp \<Rightarrow> real" where
  "daysSinceLastReview md filePath now =
     of_int (now - (case md filePath of
                      None \<Rightarrow> 0
                    | Some d \<Rightarrow> (case lastReviewTime d of None \<Rightarrow> 0 | Some t \<Rightarrow> t)))
       / (1000 * 3600 * 24)"

definition dueByStrength :: "memoryData \<Rightarrow> string \<Rightarrow> bool" where
  "dueByStrength md filePath =
     (fst (calculateMemoryStrength md filePath) < 0.8 \<and>
      (case md filePath of None \<Rightarrow> False | Some d \<Rightarrow> consecutiveSuccess d < 3))"

definition dueByWeight ::
  "MyPluginSettings \<Rightarrow> weightData \<Rightarrow> memoryData \<Rightarrow> string \<Rightarrow> timestamp \<Rightarrow> timestamp \<Rightarrow> bool" where
  "dueByWeight s dat md filePath now startOfYear =
     ((case calculateCurrentWeight s dat filePath now startOfYear of
         None \<Rightarrow> False
       | Some weight \<Rightarrow> weight > 0.6) \<and>
      daysSinceLastReview md filePath now > 2)"

definition dueByAge :: "memoryData \<Rightarrow> string \<Rightarrow> timestamp \<Rightarrow> bool" where
  "dueByAge md filePath now =
     (daysSinceLastReview md filePath now > 7 \<and>
      (case md filePath of
         None \<Rightarrow> False
       | Some d \<Rightarrow> length (filter (\<lambda>x. x \<noteq> 0) (historicalSuccessRate d)) < 3))"

definition isDueFile ::
  "MyPluginSettings \<Rightarrow> weightData \<Rightarrow> memoryData \<Rightarrow> string \<Rightarrow> timestamp \<Rightarrow> timestamp \<Rightarrow> bool" where
  "isDueFile s dat md filePath now startOfYear =
     (dueByStrength md filePath \<or>
      dueByWeight s dat md filePath now startOfYear \<or>
      dueByAge md filePath now)"

section \<open>Interaction tracking and engagement (\<open>DataManager\<close>)\<close>

record InteractionDuration =
  startTime :: timestamp
  contentLength :: nat
  durations :: "int list"
  linkCount :: nat

text \<open>The three stores of a \<open>DataManager\<close>.\<close>

record DataManager =
  data :: weightData
  interactionDurations :: "string \<rightharpoonup> InteractionDuration"
  memoryData :: memoryData

datatype jsError = TypeError

definition startInteractionTracking :: "DataManager \<Rightarrow> string \<Rightarrow> nat \<Rightarrow> timestamp \<Rightarrow> DataManager" where
  "startInteractionTracking dm filePath contentLen now =
     (case interactionDurations dm filePath of
        Some _ \<Rightarrow> dm
      | None \<Rightarrow>
          dm\<lparr>interactionDurations := (interactionDurations dm)(filePath \<mapsto>
               \<lparr>startTime = now, contentLength = contentLen, durations = [], linkCount = 0\<rparr>)\<rparr>)"

definition recordInteractionDuration :: "DataManager \<Rightarrow> string \<Rightarrow> timestamp \<Rightarrow> DataManager" where
  "recordInteractionDuration dm filePath now =
     (case interactionDurations dm filePath of
        None \<Rightarrow> dm
      | Some tracking \<Rightarrow>
          dm\<lparr>interactionDurations := (interactionDurations dm)(filePath \<mapsto>
               tracking\<lparr>durations := durations tracking @ [now - startTime tracking],
                         startTime := now\<rparr>)\<rparr>)"

text \<open>
  \<open>calculateEngagement\<close>. Without a tracked session it returns 0 at once. With one it
  computes the smoothed score and writes it to \<open>this.data[filePath].previousEngagement\<close>;
  that assignment throws a \<open>TypeError\<close> when the path has no weight entry. \<open>x || y\<close>
  takes \<open>y\<close> when \<open>x\<close> is absent or 0.
\<close>

definition engagementScore :: "InteractionDuration \<Rightarrow> real" where
  "engagementScore tracking =
     (let totalDuration = foldl (+) 0 (durations tracking)
      in (of_int totalDuration * 0.6 + real (linkCount tracking) * 0.4)
           / (if contentLength tracking = 0 then 1 else real (contentLength tracking)))"

definition calculateEngagement :: "DataManager \<Rightarrow> string \<Rightarrow> jsError + (real \<times> DataManager)" where
  "calculateEngagement dm filePath =
     (case interactionDurations dm filePath of
        None \<Rightarrow> Inr (0, dm)
      | Some tracking \<Rightarrow>
          (let score = engagementScore tracking;
               a = 0.2;
               previousEMA =
                 (case map_of (data dm) filePath of
                    None \<Rightarrow> score
                  | Some e \<Rightarrow>
                      (case previousEngagement e of
                         None \<Rightarrow> score
                       | Some p \<Rightarrow> if p = 0 then score else p));
               currentEMA = a * score + (1 - a) * previousEMA
           in case map_of (data dm) filePath of
                None \<Rightarrow> Inl TypeError
              | Some e \<Rightarrow>
                  Inr (currentEMA,
                       dm\<lparr>data := AList.update filePath
                                   (e\<lparr>previousEngagement := Some currentEMA\<rparr>) (data dm)\<rparr>)))"

section \<open>Text complexity (\<open>DataManager.calculateComplexity\<close>)\<close>

text \<open>
  A JavaScript string is a sequence of UTF-16 code units; the regular expressions of the
  source (none has the \<open>u\<close> flag) work on code units. \<open>utf16\<close> gives the string of an
  ASCII literal.
\<close>

type_synonym codeUnit = nat
type_synonym jsString = "codeUnit list"

definition utf16 :: "string \<Rightarrow> jsString" where
  "utf16 s = map of_char s"

text \<open>
  The character classes: \<open>\s\<close> (also the set that \<open>trim\<close> strips), the line terminators
  that \<open>.\<close> excludes, \<open>\w\<close>, and \<open>[\u4e00-\u9fa5]\<close>.
\<close>

definition isWhiteSpace :: "codeUnit \<Rightarrow> bool" where
  "isWhiteSpace c =
     ((9 \<le> c \<and> c \<le> 13) \<or> c = 32 \<or> c = 160 \<or> c = 5760 \<or> (8192 \<le> c \<and> c \<le> 8202) \<or>
      c = 8232 \<or> c = 8233 \<or> c = 8239 \<or> c = 8287 \<or> c = 12288 \<or> c = 65279)"

definition isLineTerminator :: "codeUnit \<Rightarrow> bool" where
  "isLineTerminator c = (c = 10 \<or> c = 13 \<or> c = 8232 \<or> c = 8233)"

definition isWordChar :: "codeUnit \<Rightarrow> bool" where
  "isWordChar c = ((48 \<le> c \<and> c \<le> 57) \<or> (65 \<le> c \<and> c \<le> 90) \<or> c = 95 \<or> (97 \<le> c \<and> c \<le> 122))"

definition isCJK :: "codeUnit \<Rightarrow> bool" where
  "isCJK c = (19968 \<le> c \<and> c \<le> 40869)"

definition trim :: "jsString \<Rightarrow> jsString" where
  "trim s = rev (dropWhile isWhiteSpace (rev (dropWhile isWhiteSpace s)))"

text \<open>
  The regular expressions that the function replaces are sequences of single characters
  or classes, some under a lazy star (\<open>X*?\<close>) or a greedy star (\<open>X*\<close>; \<open>X+\<close> is \<open>X\<close>
  followed by \<open>X*\<close>). \<open>matchHere\<close> is the backtracking match at the start of a string:
  it returns what is left after the first match in the order of priority (a lazy star
  tries the rest of the pattern before it takes a character, a greedy one after).
\<close>

datatype atom = Chr "codeUnit \<Rightarrow> bool" | Lazy "codeUnit \<Rightarrow> bool" | Greedy "codeUnit \<Rightarrow> bool"

fun matchHere :: "atom list \<Rightarrow> jsString \<Rightarrow> jsString option" where
  "matchHere [] s = Some s"
| "matchHere (Chr p # as) [] = None"
| "matchHere (Chr p # as) (c # cs) = (if p c then matchHere as cs else None)"
| "matchHere (Lazy p # as) s =
     (case matchHere as s of
        Some r \<Rightarrow> Some r
      | None \<Rightarrow> (case s of [] \<Rightarrow> None
                 | c # cs \<Rightarrow> if p c then matchHere (Lazy p # as) cs else None))"
| "matchHere (Greedy p # as) [] = matchHere as []"
| "matchHere (Greedy p # as) (c # cs) =
     (if p c
      then (case matchHere (Greedy p # as) cs of Some r \<Rightarrow> Some r | None \<Rightarrow> matchHere as (c # cs))
      else matchHere as (c # cs))"

text \<open>
  \<open>s.replace(re, '')\<close> with the \<open>g\<close> flag: scan from the left, drop every match, go on
  after it. A match that consumes nothing leaves the character in place.
\<close>

fun removeAll_re :: "atom list \<Rightarrow> jsString \<Rightarrow> jsString" where
  "removeAll_re re [] = []"
| "removeAll_re re (c # cs) =
     (case matchHere re (c # cs) of
        None \<Rightarrow> c # removeAll_re re cs
      | Some r \<Rightarrow> if length r < length (c # cs) then removeAll_re re r else c # removeAll_re re cs)"

text \<open>
  \<open>s.split(re)\<close>, the loop of the language specification. The matcher \<open>m S q\<close> tries the
  expression at index \<open>q\<close> and returns how many code units it consumed. \<open>p\<close> is the start
  of the current piece; a match that ends at \<open>p\<close> is skipped.
\<close>

function splitLoop :: "(jsString \<Rightarrow> nat \<Rightarrow> nat option) \<Rightarrow> jsString \<Rightarrow> nat \<Rightarrow> nat \<Rightarrow> jsString list" where
  "splitLoop m S p q =
     (if q < length S
      then (case m S q of
              None \<Rightarrow> splitLoop m S p (q + 1)
            | Some n \<Rightarrow>
                if q + n = p then splitLoop m S p (q + 1)
                else take (q - p) (drop p S) # splitLoop m S (q + n) (q + n))
      else [drop p S])"
  by pat_completeness auto
termination
  by (relation "measure (\<lambda>(m, S, p, q). 2 * (length S - q) + (if p = q then 0 else 1))") auto

definition split_re :: "(jsString \<Rightarrow> nat \<Rightarrow> nat option) \<Rightarrow> jsString \<Rightarrow> jsString list" where
  "split_re m S =
     (if S = [] then (case m S 0 of Some _ \<Rightarrow> [] | None \<Rightarrow> [S]) else splitLoop m S 0 0)"

text \<open>
  The matchers of the expressions the source splits on: \<open>[...]+\<close> for a class, and
  \<open>\b|\s+\<close>, where the word boundary is tried first and consumes nothing.
\<close>

definition matchRun :: "(codeUnit \<Rightarrow> bool) \<Rightarrow> jsString \<Rightarrow> nat \<Rightarrow> nat option" where
  "matchRun p S q =
     (let n = length (takeWhile p (drop q S)) in if n > 0 then Some n else None)"

definition isWordBoundary :: "jsString \<Rightarrow> nat \<Rightarrow> bool" where
  "isWordBoundary S q =
     ((q > 0 \<and> isWordChar (S ! (q - 1))) \<noteq> (q < length S \<and> isWordChar (S ! q)))"

definition matchBoundaryOrSpace :: "jsString \<Rightarrow> nat \<Rightarrow> nat option" where
  "matchBoundaryOrSpace S q = (if isWordBoundary S q then Some 0 else matchRun isWhiteSpace S q)"

text \<open>
  The six expressions that strip the markdown: fenced code blocks, images, links, HTML
  tags, heading markers and list bullets, in the order of the source.
\<close>

definition lit :: "codeUnit \<Rightarrow> atom" where
  "lit k = Chr (\<lambda>c. c = k)"

definition dot :: "codeUnit \<Rightarrow> bool" where
  "dot c = (\<not> isLineTerminator c)"

definition codeBlock_re :: "atom list" where
  "codeBlock_re = [lit 96, lit 96, lit 96, Lazy (\<lambda>c. True), lit 96, lit 96, lit 96]"

definition image_re :: "atom list" where
  "image_re = [lit 33, lit 91, Lazy dot, lit 93, lit 40, Lazy dot, lit 41]"

definition link_re :: "atom list" where
  "link_re = [lit 91, Lazy dot, lit 93, lit 40, Lazy dot, lit 41]"

definition htmlTag_re :: "atom list" where
  "htmlTag_re = [lit 60, Greedy (\<lambda>c. c \<noteq> 62), lit 62]"

definition heading_re :: "atom list" where
  "heading_re = [lit 35, Greedy (\<lambda>c. c = 35), Chr isWhiteSpace, Greedy isWhiteSpace]"

definition listItem_re :: "atom list" where
  "listItem_re = [Chr (\<lambda>c. c = 45 \<or> c = 42), Chr isWhiteSpace, Greedy isWhiteSpace]"

definition stripMarkdown :: "jsString \<Rightarrow> jsString" where
  "stripMarkdown content =
     removeAll_re listItem_re (removeAll_re heading_re (removeAll_re htmlTag_re
       (removeAll_re link_re (removeAll_re image_re (removeAll_re codeBlock_re content)))))"

text \<open>Sentences, words and syllables.\<close>

definition isChineseStop :: "codeUnit \<Rightarrow> bool" where
  "isChineseStop c = (c = 12290 \<or> c = 65281 \<or> c = 65311)"

definition isEnglishStop :: "codeUnit \<Rightarrow> bool" where
  "isEnglishStop c = (c = 46 \<or> c = 33 \<or> c = 63)"

definition countSentences :: "jsString \<Rightarrow> nat" where
  "countSentences plainText =
     (let chineseSentences = length (filter (\<lambda>s. trim s \<noteq> []) (split_re (matchRun isChineseStop) plainText));
          englishSentences = length (filter (\<lambda>s. trim s \<noteq> []) (split_re (matchRun isEnglishStop) plainText))
      in max (chineseSentences + englishSentences) 1)"

definition countChineseWords :: "jsString \<Rightarrow> nat" where
  "countChineseWords plainText = length (filter isCJK plainText)"

definition countEnglishWords :: "jsString \<Rightarrow> nat" where
  "countEnglishWords plainText =
     length (filter (\<lambda>w. w \<noteq> []) (split_re (matchRun (\<lambda>c. isWhiteSpace c \<or> c = 12288)) plainText))"

text \<open>
  \<open>toLowerCase\<close>: the letters A to Z, and the two other code units whose lower case has
  an ASCII letter (U+0130 and the Kelvin sign). Every other code unit is kept: its lower
  case is again neither ASCII nor white space, and nothing below looks further.
\<close>

definition lowerUnit :: "codeUnit \<Rightarrow> jsString" where
  "lowerUnit c =
     (if 65 \<le> c \<and> c \<le> 90 then [c + 32]
      else if c = 304 then [105, 775]
      else if c = 8490 then [107]
      else [c])"

definition toLowerCase :: "jsString \<Rightarrow> jsString" where
  "toLowerCase s = concat (map lowerUnit s)"

definition isVowel :: "codeUnit \<Rightarrow> bool" where
  "isVowel c = (c = 97 \<or> c = 101 \<or> c = 105 \<or> c = 111 \<or> c = 117 \<or> c = 121)"

fun vowelGroups :: "jsString \<Rightarrow> nat \<Rightarrow> bool \<Rightarrow> nat" where
  "vowelGroups [] count prevVowel = count"
| "vowelGroups (ch # rest) count prevVowel =
     (if isVowel ch \<and> \<not> prevVowel then vowelGroups rest (count + 1) True
      else vowelGroups rest count False)"

definition endsWith_e :: "jsString \<Rightarrow> bool" where
  "endsWith_e word = (word \<noteq> [] \<and> last word = 101)"

definition addSyllables :: "nat \<Rightarrow> jsString \<Rightarrow> nat" where
  "addSyllables acc word =
     (if word = [] then acc
      else (let count = vowelGroups word 0 False;
                count' = (if endsWith_e word \<and> count > 1 then count - 1 else count)
            in acc + max count' 1))"

definition englishSyllables :: "jsString \<Rightarrow> nat" where
  "englishSyllables plainText =
     (let englishContent = filter (\<lambda>c. \<not> isCJK c) plainText
      in foldl addSyllables 0 (split_re matchBoundaryOrSpace (toLowerCase englishContent)))"

text \<open>
  The grade and its normalisation. \<open>Math.log\<close> of a negative number is \<open>NaN\<close>, and
  \<open>NaN\<close> goes through \<open>Math.exp\<close>, the division, \<open>Math.min\<close> and \<open>toFixed\<close> to the
  result. \<open>Math.log(0)\<close> is minus infinity, the exponential plus infinity and the
  quotient 0.
\<close>

definition fkGradeOf :: "nat \<Rightarrow> nat \<Rightarrow> real \<Rightarrow> real" where
  "fkGradeOf sentences totalWords syllables =
     0.39 * (real totalWords / real sentences) + 11.8 * (syllables / real totalWords) - 15.59"

definition normalizeGrade :: "real \<Rightarrow> real option" where
  "normalizeGrade fkGrade =
     (if fkGrade + 1 < 0 then None
      else if fkGrade + 1 = 0 then Some 0
      else Some (1 / (1 + exp (- 0.5 * (ln (fkGrade + 1) - 2.5)))))"

definition calculateComplexity :: "jsString \<Rightarrow> real option" where
  "calculateComplexity content =
     (if trim content = [] then Some 0.1
      else (let plainText = stripMarkdown content;
                sentences = countSentences plainText;
                chineseWords = countChineseWords plainText;
                englishWords = countEnglishWords plainText;
                totalWords = max (chineseWords + englishWords) 1;
                syllables = real chineseWords * 1.5 + real (englishSyllables plainText);
                fkGrade = fkGradeOf sentences totalWords syllables
            in case normalizeGrade fkGrade of
                 None \<Rightarrow> None
               | Some normalized \<Rightarrow>
                   (let minVal = 0.1; adjusted = minVal + (1 - minVal) * normalized
                    in Some (toFixed2 (min adjusted 1)))))"

section \<open>Centrality (\<open>DataManager.calculateCentrality\<close>)\<close>

text \<open>
  The function reads every markdown file of the vault and extracts its wiki links. The
  model starts from that reading: a list with, for each file in vault order, its path and
  the link targets found in its content. \<open>linkGraph\<close>, \<open>pagerank\<close> and \<open>newRank\<close> are
  JavaScript \<open>Map\<close>s: association lists in insertion order.
\<close>

type_synonym linkGraph = "(string \<times> string list) list"
type_synonym rankMap = "(string \<times> real) list"

definition dampingFactor :: real where
  "dampingFactor = 0.85"

definition iterations :: nat where
  "iterations = 10"

definition buildLinkGraph :: "(string \<times> string list) list \<Rightarrow> linkGraph" where
  "buildLinkGraph files = foldl (\<lambda>g (path, links). AList.update path links g) [] files"

text \<open>\<open>m.get(k) || 0\<close>\<close>

definition getOrZero :: "rankMap \<Rightarrow> string \<Rightarrow> real" where
  "getOrZero m k = (case map_of m k of None \<Rightarrow> 0 | Some v \<Rightarrow> v)"

definition initialRank :: "linkGraph \<Rightarrow> rankMap" where
  "initialRank g = foldl (\<lambda>pr (key, _). AList.update key (1 / real (length g)) pr) [] g"

text \<open>
  The contributions of one source to its link targets. \<open>pagerank.get(current)!\<close> is
  defined for every key of the graph, since \<open>initialRank\<close> sets them all and no key is
  ever removed.
\<close>

definition distribute :: "rankMap \<Rightarrow> rankMap \<Rightarrow> string \<times> string list \<Rightarrow> rankMap" where
  "distribute pagerank newRank node =
     (let current = fst node; links = snd node;
          contribution = (if length links > 0
                          then dampingFactor * (getOrZero pagerank current / real (length links))
                          else 0)
      in foldl (\<lambda>nr link. AList.update link (getOrZero nr link + contribution) nr) newRank links)"

definition rankIteration :: "linkGraph \<Rightarrow> rankMap \<Rightarrow> rankMap" where
  "rankIteration g pagerank =
     (let newRank = foldl (distribute pagerank) [] g;
          randomJump = (1 - dampingFactor) / real (length g)
      in foldl (\<lambda>pr (key, v). AList.update key (getOrZero pr key + v + randomJump) pr)
           pagerank newRank)"

definition calculateCentrality :: "(string \<times> string list) list \<Rightarrow> string \<Rightarrow> real" where
  "calculateCentrality files filePath =
     (let g = buildLinkGraph files
      in getOrZero ((rankIteration g ^^ iterations) (initialRank g)) filePath)"

section \<open>Knowledge nodes and review intervals (\<open>DeepSeekPlugin\<close>, \<open>KnowledgeGraph\<close>)\<close>

record CognitiveWeight =
  base :: real
  decayRate :: real
  interactions :: nat
  lastUpdated_node :: timestamp

record KnowledgeNode =
  node_id :: string
  content :: string
  weight :: CognitiveWeight
  nextReviewDate :: timestamp

text \<open>\<open>CognitiveEngine.updateWeight\<close>, with the plugin's \<open>decayRate\<close> setting.\<close>

definition updateWeight :: "real \<Rightarrow> timestamp \<Rightarrow> KnowledgeNode \<Rightarrow> KnowledgeNode" where
  "updateWeight rate now node =
     (let w = weight node;
          timeDecay = base w * exp (- rate * (of_int (now - lastUpdated_node w) / (1000 * 3600 * 24)));
          boost = 0.2 * ln (1 + real (interactions w));
          newBase = min 1 (timeDecay + boost)
      in node\<lparr>weight := w\<lparr>base := newBase, lastUpdated_node := now,
                              interactions := interactions w + 1\<rparr>\<rparr>)"

text \<open>The base weight after one answer in \<open>DeepSeekPlugin.runDailyReview\<close>.\<close>

definition reviewedBase :: "bool \<Rightarrow> real \<Rightarrow> real" where
  "reviewedBase isCorrect b = (if isCorrect then min 1 (b + 0.1) else b * 0.9)"

text \<open>
  \<open>DeepSeekPlugin.calculateReviewInterval\<close>, the one that \<open>runDailyReview\<close> schedules
  with. \<open>Math.round\<close> rounds a tie upwards, as \<open>round\<close> does.
\<close>

definition calculateReviewInterval :: "real \<Rightarrow> KnowledgeNode \<Rightarrow> real" where
  "calculateReviewInterval maxReviewInterval node =
     (let baseInterval = max 1 (of_int (round (10 * (1 - base (weight node)))))
      in min maxReviewInterval baseInterval)"

text \<open>\<open>KnowledgeGraph.calculateReviewInterval\<close>, the exponential variant.\<close>

definition calculateReviewInterval_graph :: "real \<Rightarrow> KnowledgeNode \<Rightarrow> real" where
  "calculateReviewInterval_graph maxReviewInterval node =
     (let baseInterval = 2 powr (5 * base (weight node))
      in min maxReviewInterval (max 1 baseInterval))"

text \<open>A node that differs from its neighbours only in the base weight, for examples.\<close>

definition nodeWithBase :: "real \<Rightarrow> KnowledgeNode" where
  "nodeWithBase b =
     \<lparr>node_id = ''note'', content = ''text'',
      weight = \<lparr>base = b, decayRate = 0.05, interactions = 0, lastUpdated_node = 0\<rparr>,
      nextReviewDate = 0\<rparr>"

section \<open>Invariants\<close>

text \<open>Every stored window of outcomes holds at most 100 entries.\<close>

definition windowsBounded :: "memoryData \<Rightarrow> bool" where
  "windowsBounded md = (\<forall>p d. md p = Some d \<longrightarrow> length (historicalSuccessRate d) \<le> 100)"

section \<open>Results: memory strength\<close>

lemma recomputeEF_bounds: "1.3 \<le> recomputeEF h \<and> recomputeEF h \<le> 2.5"
  by (simp add: recomputeEF_def Let_def)

text \<open>
  C5. Whatever the window of past outcomes holds (the empty window included, where the
  success rate defaults to 0.7), the easiness factor that \<open>calculateMemoryStrength\<close>
  assigns to \<open>data.EF\<close> lies between 1.3 and 2.5; for a stored entry it is the entry
  that the store holds afterwards.
\<close>

theorem calculateMemoryStrength_EF_range:
  "1.3 \<le> EF (dataAfterEF md filePath) \<and> EF (dataAfterEF md filePath) \<le> 2.5 \<and>
   snd (calculateMemoryStrength md filePath) filePath =
     map_option (\<lambda>_. dataAfterEF md filePath) (md filePath)"
  using recomputeEF_bounds
  by (auto simp: dataAfterEF_def calculateMemoryStrength_def Let_def split: option.splits)

lemma strengthOf_ge_1: "1.3 \<le> EF d \<Longrightarrow> 1 \<le> strengthOf d"
proof (cases "lastTestResult d")
  case True
  assume ef: "1.3 \<le> EF d"
  have "0 \<le> ln (real (consecutiveSuccess d) + 1)" by simp
  then have "1 \<le> 1 + 0.2 * ln (real (consecutiveSuccess d) + 1)" by simp
  moreover have "1 \<le> EF d" using ef by simp
  ultimately have "1 * 1 \<le> EF d * (1 + 0.2 * ln (real (consecutiveSuccess d) + 1))"
    by (intro mult_mono) simp_all
  with True show ?thesis by (simp add: strengthOf_def)
next
  case False
  then show ?thesis by (simp add: strengthOf_def)
qed

text \<open>
  C6. For every memory store (every window, every streak count, either last result, an
  entry or none), \<open>calculateMemoryStrength\<close> returns at least 1, so the first
  condition of \<open>getDueFiles\<close>, strength below 0.8 with fewer than three consecutive
  successes, holds for no file.
\<close>

theorem memory_strength_at_least_one:
  "1 \<le> fst (calculateMemoryStrength md filePath) \<and> \<not> dueByStrength md filePath"
proof -
  have "1.3 \<le> EF (dataAfterEF md filePath)"
    using recomputeEF_bounds by (simp add: dataAfterEF_def Let_def)
  then have "1 \<le> strengthOf (dataAfterEF md filePath)"
    by (rule strengthOf_ge_1)
  then have ge: "1 \<le> fst (calculateMemoryStrength md filePath)"
    by (simp add: calculateMemoryStrength_def Let_def)
  then show ?thesis by (simp add: dueByStrength_def)
qed

section \<open>Results: the window of outcomes\<close>

lemma pushOutcome_length: "length h \<le> 100 \<Longrightarrow> length (pushOutcome h b) \<le> 100"
  by (cases h) (auto simp: pushOutcome_def)

lemma updateTestResult_window:
  "map_option historicalSuccessRate (updateTestResult md filePath isCorrect now filePath) =
     Some (pushOutcome (case md filePath of None \<Rightarrow> [] | Some d \<Rightarrow> historicalSuccessRate d) isCorrect)"
  by (auto simp: updateTestResult_def Let_def freshMemory_def split: option.splits)

lemma updateTestResult_other:
  "p \<noteq> filePath \<Longrightarrow> updateTestResult md filePath isCorrect now p = md p"
  by (simp add: updateTestResult_def Let_def)

lemma updateTestResult_bounded:
  assumes "windowsBounded md"
  shows "windowsBounded (updateTestResult md filePath isCorrect now)"
  unfolding windowsBounded_def
proof (intro allI impI)
  fix p d
  assume a: "updateTestResult md filePath isCorrect now p = Some d"
  show "length (historicalSuccessRate d) \<le> 100"
  proof (cases "p = filePath")
    case False
    with a assms show ?thesis by (auto simp: updateTestResult_other windowsBounded_def)
  next
    case True
    let ?h = "case md filePath of None \<Rightarrow> [] | Some d \<Rightarrow> historicalSuccessRate d"
    have "length ?h \<le> 100" using assms by (auto simp: windowsBounded_def split: option.splits)
    then have "length (pushOutcome ?h isCorrect) \<le> 100" by (rule pushOutcome_length)
    moreover have "historicalSuccessRate d = pushOutcome ?h isCorrect"
      using a True updateTestResult_window [of md filePath isCorrect now] by simp
    ultimately show ?thesis by simp
  qed
qed

lemma recordOutcomes_bounded:
  "windowsBounded md \<Longrightarrow> windowsBounded (recordOutcomes evs md)"
  by (induction evs md rule: recordOutcomes.induct) (auto intro: updateTestResult_bounded)

text \<open>
  C9. The memory store starts empty and only \<open>updateTestResult\<close> adds outcomes. After
  any sequence of recorded outcomes, for any paths, no window holds more than 100
  entries; and on a window that holds 100 entries \<open>updateTestResult\<close> drops the oldest
  entry and appends the new outcome at the end.
\<close>

theorem window_never_exceeds_100:
  "(recordOutcomes evs Map.empty p = Some d \<longrightarrow> length (historicalSuccessRate d) \<le> 100) \<and>
   (md filePath = Some d' \<and> length (historicalSuccessRate d') = 100 \<longrightarrow>
      map_option historicalSuccessRate (updateTestResult md filePath isCorrect now filePath) =
        Some (tl (historicalSuccessRate d') @ [if isCorrect then 1 else 0]))"
proof -
  have "windowsBounded Map.empty" by (simp add: windowsBounded_def)
  then have "windowsBounded (recordOutcomes evs Map.empty)" by (rule recordOutcomes_bounded)
  then show ?thesis
    by (auto simp: windowsBounded_def updateTestResult_window pushOutcome_def)
qed

theorem window_never_exceeds_100_witness:
  "recordOutcomes (replicate 100 (''a.md'', True, 0)) Map.empty ''a.md'' =
     Some \<lparr>EF = 2.5, consecutiveSuccess = 100, consecutiveFailures = 0, lastTestResult = True,
           historicalSuccessRate = replicate 100 1, lastReviewTime = Some 0\<rparr> \<and>
   length (replicate 100 (1::real)) = 100 \<and>
   map_option historicalSuccessRate
     (updateTestResult (recordOutcomes (replicate 100 (''a.md'', True, 0)) Map.empty)
        ''a.md'' False 5 ''a.md'') =
     Some (replicate 99 1 @ [0])"
proof -
  let ?d = "\<lparr>EF = 2.5, consecutiveSuccess = 100, consecutiveFailures = 0, lastTestResult = True,
           historicalSuccessRate = replicate 100 (1::real), lastReviewTime = Some (0::int)\<rparr>"
  have r: "recordOutcomes (replicate 100 (''a.md'', True, 0)) Map.empty ''a.md'' = Some ?d"
    by code_simp
  have t: "tl (replicate 100 (1::real)) = replicate 99 1" by code_simp
  from window_never_exceeds_100
    [of "replicate 100 (''a.md'', True, 0)" "''a.md''" ?d
        "recordOutcomes (replicate 100 (''a.md'', True, 0)) Map.empty" "''a.md''" ?d False 5]
  show ?thesis using r t by simp
qed

section \<open>Results: engagement\<close>

text \<open>
  C10. For a path without tracked session \<open>calculateEngagement\<close> returns 0, raises
  nothing and leaves the three stores as they were.
\<close>

theorem calculateEngagement_untracked:
  "interactionDurations dm filePath = None \<Longrightarrow> calculateEngagement dm filePath = Inr (0, dm)"
  by (simp add: calculateEngagement_def)

theorem calculateEngagement_untracked_witness:
  "interactionDurations \<lparr>data = [], interactionDurations = Map.empty, memoryData = Map.empty\<rparr>
     ''note.md'' = None \<and>
   calculateEngagement \<lparr>data = [], interactionDurations = Map.empty, memoryData = Map.empty\<rparr>
     ''note.md'' =
     Inr (0, \<lparr>data = [], interactionDurations = Map.empty, memoryData = Map.empty\<rparr>)"
  using calculateEngagement_untracked
    [of "\<lparr>data = [], interactionDurations = Map.empty, memoryData = Map.empty\<rparr>" "''note.md''"]
  by simp

section \<open>Results: centrality\<close>

lemma distribute_no_links: "distribute pr nr (k, []) = nr"
  by (simp add: distribute_def)

lemma foldl_distribute_no_links:
  "\<forall>node \<in> set g. snd node = [] \<Longrightarrow> foldl (distribute pr) nr g = nr"
proof (induction g arbitrary: nr)
  case Nil
  then show ?case by simp
next
  case (Cons node g)
  then have "distribute pr nr node = nr"
    by (cases node) (simp add: distribute_no_links)
  with Cons show ?case by simp
qed

lemma rankIteration_no_links:
  "\<forall>node \<in> set g. snd node = [] \<Longrightarrow> rankIteration g pr = pr"
  by (simp add: rankIteration_def foldl_distribute_no_links)

lemma funpow_fixed: "f x = x \<Longrightarrow> (f ^^ n) x = x"
  by (induction n) auto

lemma foldl_update_set:
  "set (foldl (\<lambda>g (path, links). AList.update path links g) acc files) \<subseteq> set acc \<union> set files"
proof (induction files arbitrary: acc)
  case Nil
  then show ?case by simp
next
  case (Cons f files)
  obtain p l where f: "f = (p, l)" by (cases f)
  have "set (AList.update p l acc) \<subseteq> insert (p, l) (set acc)"
    by (induction acc) auto
  with Cons [of "AList.update p l acc"] f show ?case by auto
qed

lemma foldl_update_keys:
  "fst ` set (foldl (\<lambda>g (path, links). AList.update path links g) acc files) =
     fst ` set acc \<union> fst ` set files"
proof (induction files arbitrary: acc)
  case Nil
  then show ?case by simp
next
  case (Cons f files)
  obtain p l where f: "f = (p, l)" by (cases f)
  have "fst ` set (AList.update p l acc) = insert p (fst ` set acc)"
    using dom_update [of p l acc] by (simp add: dom_map_of_conv_image_fst)
  with Cons [of "AList.update p l acc"] f show ?case by auto
qed

lemma foldl_update_distinct:
  "distinct (map fst acc) \<Longrightarrow>
   distinct (map fst (foldl (\<lambda>g (path, links). AList.update path links g) acc files))"
proof (induction files arbitrary: acc)
  case Nil
  then show ?case by simp
next
  case (Cons f files)
  obtain p l where f: "f = (p, l)" by (cases f)
  from Cons.prems have "distinct (map fst (AList.update p l acc))" by (simp add: distinct_update)
  with Cons.IH [of "AList.update p l acc"] f show ?case by simp
qed

lemma foldl_const_rank:
  "map_of (foldl (\<lambda>pr (key, _). AList.update key c pr) acc g) k =
     (if k \<in> fst ` set g then Some c else map_of acc k)"
proof (induction g arbitrary: acc)
  case Nil
  then show ?case by simp
next
  case (Cons node g)
  obtain p l where n: "node = (p, l)" by (cases node)
  show ?case using Cons [of "AList.update p c acc"] n
    by (auto simp: update_conv')
qed

text \<open>
  C3, as the code has it. In a vault whose files contain no links, \<open>newRank\<close> stays
  empty in every round, so the loop that adds the random-jump term has nothing to visit
  and no rank ever changes: every file keeps its initial rank \<open>1/|V|\<close>, where \<open>|V|\<close>
  is the number of files.
\<close>

theorem centrality_without_edges:
  assumes "\<forall>file \<in> set files. snd file = []" and "filePath \<in> fst ` set files"
  shows "calculateCentrality files filePath = 1 / real (card (fst ` set files))"
proof -
  let ?g = "buildLinkGraph files"
  have sub: "set ?g \<subseteq> set files"
    using foldl_update_set [of "[]" files] by (simp add: buildLinkGraph_def)
  then have nolinks: "\<forall>node \<in> set ?g. snd node = []" using assms(1) by blast
  have keys: "fst ` set ?g = fst ` set files"
    using foldl_update_keys [of "[]" files] by (simp add: buildLinkGraph_def)
  have "distinct (map fst ?g)"
    using foldl_update_distinct [of "[]" files] by (simp add: buildLinkGraph_def)
  then have "card (set (map fst ?g)) = length (map fst ?g)" by (rule distinct_card)
  then have len: "length ?g = card (fst ` set files)" using keys by simp
  have "(rankIteration ?g ^^ iterations) (initialRank ?g) = initialRank ?g"
    using nolinks by (intro funpow_fixed rankIteration_no_links)
  moreover have "getOrZero (initialRank ?g) filePath = 1 / real (length ?g)"
    using keys assms(2) by (simp add: getOrZero_def initialRank_def foldl_const_rank)
  ultimately show ?thesis by (simp add: calculateCentrality_def Let_def len)
qed

theorem centrality_without_edges_witness:
  "map snd [(''a.md'', []::string list), (''b.md'', [])] = [[], []] \<and>
   ''b.md'' \<in> fst ` set [(''a.md'', []::string list), (''b.md'', [])] \<and>
   calculateCentrality [(''a.md'', []), (''b.md'', [])] ''b.md'' = 1 / 2"
proof -
  have h1: "\<forall>file \<in> set [(''a.md'', []), (''b.md'', [])]. snd file = ([]::string list)" by simp
  have h2: "''b.md'' \<in> fst ` set [(''a.md'', []::string list), (''b.md'', [])]" by simp
  have c: "card (fst ` set [(''a.md'', []::string list), (''b.md'', [])]) = 2" by simp
  from centrality_without_edges [OF h1 h2] c h2 show ?thesis by simp
qed

text \<open>
  The claim as the specification states it, rank \<open>(1 - 0.85)/|V|\<close>, fails on a vault of
  two files without links: each has rank \<open>1/2\<close>, not \<open>0.075\<close>.
\<close>

theorem centrality_without_edges_counterexample:
  "calculateCentrality [(''a.md'', []), (''b.md'', [])] ''a.md'' = 1 / 2 \<and>
   calculateCentrality [(''a.md'', []), (''b.md'', [])] ''a.md'' \<noteq> (1 - 0.85) / 2"
  by (simp add: calculateCentrality_def buildLinkGraph_def initialRank_def rankIteration_def
      distribute_def getOrZero_def iterations_def funpow_fixed Let_def)

section \<open>Results: review intervals\<close>

text \<open>
  The claim C7 as stated, that the scheduler's interval grows with the weight, fails:
  a node of weight 0.2 is scheduled 8 days ahead, a node of weight 0.8 only 2.
\<close>

theorem review_interval_counterexample:
  "base (weight (nodeWithBase 0.2)) \<le> base (weight (nodeWithBase 0.8)) \<and>
   calculateReviewInterval 30 (nodeWithBase 0.2) = 8 \<and>
   calculateReviewInterval 30 (nodeWithBase 0.8) = 2 \<and>
   \<not> calculateReviewInterval 30 (nodeWithBase 0.2) \<le> calculateReviewInterval 30 (nodeWithBase 0.8)"
  by (simp add: calculateReviewInterval_def nodeWithBase_def Let_def)

text \<open>
  C7, as the code has it. The scheduler's interval is \<open>round(10 (1 - weight))\<close> clamped
  into \<open>[1, maxReviewInterval]\<close>: it equals
  \<open>min maxReviewInterval (max 1 (round (10 (1 - weight))))\<close>, which lies in that range
  when the maximum is at least 1. It is monotonically non-increasing in the weight. The
  exponential variant of the graph component is the one that is non-decreasing in the
  weight.
\<close>

theorem review_interval_policy:
  "calculateReviewInterval maxReviewInterval n1 =
     min maxReviewInterval (max 1 (of_int (round (10 * (1 - base (weight n1)))))) \<and>
   (1 \<le> maxReviewInterval \<longrightarrow>
      1 \<le> calculateReviewInterval maxReviewInterval n1 \<and>
      calculateReviewInterval maxReviewInterval n1 \<le> maxReviewInterval) \<and>
   (base (weight n1) \<le> base (weight n2) \<longrightarrow>
      calculateReviewInterval maxReviewInterval n2 \<le> calculateReviewInterval maxReviewInterval n1 \<and>
      calculateReviewInterval_graph maxReviewInterval n1 \<le>
        calculateReviewInterval_graph maxReviewInterval n2)"
proof (intro conjI impI)
  show "calculateReviewInterval maxReviewInterval n1 =
     min maxReviewInterval (max 1 (of_int (round (10 * (1 - base (weight n1))))))"
    by (simp add: calculateReviewInterval_def Let_def)
next
  assume "1 \<le> maxReviewInterval"
  then show "1 \<le> calculateReviewInterval maxReviewInterval n1"
    by (simp add: calculateReviewInterval_def Let_def)
next
  show "calculateReviewInterval maxReviewInterval n1 \<le> maxReviewInterval"
    by (simp add: calculateReviewInterval_def Let_def)
next
  assume le: "base (weight n1) \<le> base (weight n2)"
  then have "10 * (1 - base (weight n2)) \<le> 10 * (1 - base (weight n1))" by simp
  then have "round (10 * (1 - base (weight n2))) \<le> round (10 * (1 - base (weight n1)))"
    by (rule round_mono)
  then have "real_of_int (round (10 * (1 - base (weight n2)))) \<le>
        real_of_int (round (10 * (1 - base (weight n1))))"
    by simp
  then show "calculateReviewInterval maxReviewInterval n2 \<le>
                calculateReviewInterval maxReviewInterval n1"
    unfolding calculateReviewInterval_def Let_def by (intro min.mono max.mono) simp_all
next
  assume le: "base (weight n1) \<le> base (weight n2)"
  then have "2 powr (5 * base (weight n1)) \<le> 2 powr (5 * base (weight n2))"
    by (simp add: powr_mono)
  then show "calculateReviewInterval_graph maxReviewInterval n1 \<le>
           calculateReviewInterval_graph maxReviewInterval n2"
    unfolding calculateReviewInterval_graph_def Let_def by (intro min.mono max.mono) simp_all
qed

text \<open>
  At a maximum of 7.5 days a node of weight 0 is scheduled 7.5 days ahead (the rounded
  value 10 is cut at the maximum), a node of weight 0.8 two days ahead.
\<close>

theorem review_interval_policy_witness:
  "(1::real) \<le> 7.5 \<and> base (weight (nodeWithBase 0)) \<le> base (weight (nodeWithBase 0.8)) \<and>
   calculateReviewInterval 7.5 (nodeWithBase 0) = 7.5 \<and>
   calculateReviewInterval 7.5 (nodeWithBase 0.8) = 2 \<and>
   1 \<le> calculateReviewInterval 7.5 (nodeWithBase 0) \<and>
   calculateReviewInterval 7.5 (nodeWithBase 0) \<le> 7.5 \<and>
   calculateReviewInterval 7.5 (nodeWithBase 0.8) \<le> calculateReviewInterval 7.5 (nodeWithBase 0) \<and>
   calculateReviewInterval_graph 7.5 (nodeWithBase 0) \<le>
     calculateReviewInterval_graph 7.5 (nodeWithBase 0.8)"
proof -
  have h1: "(1::real) \<le> 7.5" by simp
  have h2: "base (weight (nodeWithBase 0)) \<le> base (weight (nodeWithBase 0.8))"
    by (simp add: nodeWithBase_def)
  have r0: "round (10 * (1 - base (weight (nodeWithBase 0)))) = 10"
    by (simp add: nodeWithBase_def)
  have r8: "round (10 * (1 - base (weight (nodeWithBase 0.8)))) = 2"
    by (simp add: nodeWithBase_def)
  from review_interval_policy [of "7.5" "nodeWithBase 0" "nodeWithBase 0.8"]
       review_interval_policy [of "7.5" "nodeWithBase 0.8" "nodeWithBase 0.8"]
       h1 h2 r0 r8
  show ?thesis by simp
qed

section \<open>Results: the base weight after the daily decay\<close>

lemma log_2_4: "log 2 4 = 2"
proof -
  have "log 2 (2 ^ 2) = 2" by (subst log_nat_power) simp_all
  then show ?thesis by simp
qed

lemma boost3: "interactionBoost DEFAULT_SETTINGS (Suc (Suc (Suc 0))) = 2 / 15"
  by (simp add: interactionBoost_def DEFAULT_SETTINGS_def log_2_4)

lemma defaults: "alpha DEFAULT_SETTINGS = 1" "initialWeight_setting DEFAULT_SETTINGS = 0.5"
  by (simp_all add: DEFAULT_SETTINGS_def)

lemma editThenDecay_once:
  "replay DEFAULT_SETTINGS editThenDecay [] =
     [(''note.md'', \<lparr>initialWeight = Some 0.63, lastUpdated = 1700000000000,
                     interactionCount = 0, previousEngagement = Some 0\<rparr>)]"
  by (simp add: editThenDecay_def updateInteraction_def applyDailyDecay_def
      calculateCurrentWeight_def boost3 defaults toFixed2_def Let_def round_def)

lemma replay_append: "replay s (xs @ ys) dat = replay s ys (replay s xs dat)"
  by (induction s xs dat rule: replay.induct) auto

text \<open>
  The other two writers of a base weight do clamp it at 1: \<open>CognitiveEngine.updateWeight\<close>
  and the review step of \<open>DeepSeekPlugin.runDailyReview\<close>.
\<close>

lemma updateWeight_base_le_1: "base (weight (updateWeight rate now node)) \<le> 1"
  by (simp add: updateWeight_def Let_def)

lemma reviewedBase_range:
  "0 \<le> b \<Longrightarrow> b \<le> 1 \<Longrightarrow> 0 \<le> reviewedBase ok b \<and> reviewedBase ok b \<le> 1"
  by (auto simp: reviewedBase_def)

text \<open>
  C1 on the code. \<open>applyDailyDecay\<close> stores the value of \<open>calculateCurrentWeight\<close> as it
  is, without clamping. Starting from the empty store with the default settings, four
  rounds of three edits and a decay take the base weight of the note from 0.5 over 0.63,
  0.76 and 0.89 to 1.02, outside \<open>[0,1]\<close>.
\<close>

theorem daily_decay_exceeds_one:
  "map_option initialWeight
     (map_of (replay DEFAULT_SETTINGS
                (editThenDecay @ editThenDecay @ editThenDecay @ editThenDecay) [])
        ''note.md'') = Some (Some 1.02)"
  by (simp add: replay_append editThenDecay_once)
     (simp add: editThenDecay_def updateInteraction_def applyDailyDecay_def
      calculateCurrentWeight_def boost3 defaults toFixed2_def Let_def round_def)

section \<open>Results: re-running the daily decay\<close>


lemma boost_zero: "interactionBoost s 0 = 0"
  by (simp add: interactionBoost_def)










section \<open>Results: monotonicity of the current weight\<close>

lemma toFixed2_mono: "x \<le> y \<Longrightarrow> toFixed2 x \<le> toFixed2 y"
proof -
  assume xy: "x \<le> y"
  consider "y < 0" | "x < 0" "0 \<le> y" | "0 \<le> x" by linarith
  then show ?thesis
  proof cases
    case 1
    then have "x < 0" using xy by simp
    moreover have "round (- y * 100) \<le> round (- x * 100)" using xy by (intro round_mono) simp
    ultimately show ?thesis using 1 by (simp add: toFixed2_def)
  next
    case 2
    then have "0 \<le> round (- x * 100)" "0 \<le> round (y * 100)" by (simp_all add: round_def)
    then have "- (real_of_int (round (- x * 100)) / 100) \<le> 0" "0 \<le> real_of_int (round (y * 100)) / 100"
      by simp_all
    then show ?thesis using 2 by (simp add: toFixed2_def)
  next
    case 3
    then have "0 \<le> y" using xy by simp
    moreover have "round (x * 100) \<le> round (y * 100)" using xy by (intro round_mono) simp
    ultimately show ?thesis using 3 by (simp add: toFixed2_def)
  qed
qed

lemma seasonalLambda_default_pos: "0.04 \<le> seasonalLambda DEFAULT_SETTINGS now startOfYear"
proof -
  have *: "0.04 \<le> (0.05::real) + 0.01 * x" if "- 1 \<le> x" for x :: real
    using that by simp
  show ?thesis
    unfolding seasonalLambda_def DEFAULT_SETTINGS_def
    using * [OF sin_ge_minus_one] by simp
qed

lemma interactionBoost_mono:
  assumes "n \<le> m"
  shows "interactionBoost DEFAULT_SETTINGS n \<le> interactionBoost DEFAULT_SETTINGS m"
proof -
  let ?g = "\<lambda>k::nat. 1 + 0.5 * tanh ((real k - 3) / 2)"
  let ?h = "\<lambda>k::nat. 1 - 1 / (1 + log 2 (real k + 1))"
  have g_mono: "?g n \<le> ?g m" using assms by simp
  have g_nonneg: "0 \<le> ?g n"
    using tanh_real_gt_neg1 [of "(real n - 3) / 2"] by simp
  have ln: "0 \<le> log 2 (real n + 1)" by simp
  have lm: "log 2 (real n + 1) \<le> log 2 (real m + 1)" using assms by simp
  have "1 / (1 + log 2 (real m + 1)) \<le> 1 / (1 + log 2 (real n + 1))"
    using ln lm by (intro divide_left_mono) (simp_all add: add_pos_nonneg)
  then have h_mono: "?h n \<le> ?h m" by simp
  have *: "1 / (1 + x) \<le> 1" if "0 \<le> x" for x :: real
    using that by (simp add: divide_le_eq_1)
  have "1 / (1 + log 2 (real n + 1)) \<le> 1" using ln by (rule *)
  then have h_nonneg: "0 \<le> ?h n" by simp
  have "0 \<le> ?h m" using h_nonneg h_mono by linarith
  have "?g n * ?h n \<le> ?g m * ?h m"
    using g_mono h_mono g_nonneg h_nonneg by (intro mult_mono) (linarith+)
  then show ?thesis by (simp add: interactionBoost_def DEFAULT_SETTINGS_def Let_def)
qed

text \<open>
  C2, as the code has it. With the default tunables, take two evaluations of
  \<open>calculateCurrentWeight\<close> on entries with the same non-negative base weight, the
  first not stamped later than its \<open>now\<close>. If the second evaluation has at least as
  many elapsed days, at most as many interactions, and a seasonal rate that is not lower
  than that of the first, then its weight is not higher. The two evaluations may be of
  one note at two moments (time passes and the rate does not drop) or of two entries at
  one moment (then the rates are equal): with the counter fixed this is the monotonicity
  in the elapsed days, with the elapsed days fixed the monotonicity in the interaction
  count.
\<close>

theorem current_weight_monotone:
  assumes "map_of dat1 filePath = Some e1" and "map_of dat2 filePath = Some e2"
    and "initialWeight e1 = Some b" and "initialWeight e2 = Some b" and "0 \<le> b"
    and "lastUpdated e1 \<le> now1"
    and "now1 - lastUpdated e1 \<le> now2 - lastUpdated e2"
    and "seasonalLambda DEFAULT_SETTINGS now1 startOfYear1 \<le>
         seasonalLambda DEFAULT_SETTINGS now2 startOfYear2"
    and "interactionCount e2 \<le> interactionCount e1"
  shows "\<exists>w1 w2. calculateCurrentWeight DEFAULT_SETTINGS dat1 filePath now1 startOfYear1 = Some w1 \<and>
                 calculateCurrentWeight DEFAULT_SETTINGS dat2 filePath now2 startOfYear2 = Some w2 \<and>
                 w2 \<le> w1"
proof -
  let ?lam1 = "seasonalLambda DEFAULT_SETTINGS now1 startOfYear1"
  let ?lam2 = "seasonalLambda DEFAULT_SETTINGS now2 startOfYear2"
  let ?d1 = "of_int (now1 - lastUpdated e1) / dayMs"
  let ?d2 = "of_int (now2 - lastUpdated e2) / dayMs"
  have day: "0 < dayMs" by (simp add: dayMs_def)
  have d1: "0 \<le> ?d1" using assms(6) day by simp
  have "real_of_int (now1 - lastUpdated e1) \<le> real_of_int (now2 - lastUpdated e2)"
    using assms(7) by (simp only: of_int_le_iff)
  then have d12: "?d1 \<le> ?d2" using day by (simp add: divide_right_mono)
  then have d2: "0 \<le> ?d2" using d1 by linarith
  have lam1: "0 \<le> ?lam1" using seasonalLambda_default_pos [of now1 startOfYear1] by simp
  have s1: "0 \<le> sqrt ?d1" using d1 by simp
  have s12: "sqrt ?d1 \<le> sqrt ?d2" using d12 by simp
  have "?lam1 * sqrt ?d1 \<le> ?lam2 * sqrt ?d2"
    using assms(8) s12 lam1 s1 by (intro mult_mono) linarith+
  then have "exp (- ?lam2 * sqrt ?d2) \<le> exp (- ?lam1 * sqrt ?d1)" by simp
  then have decay: "b * exp (- ?lam2 * sqrt ?d2) \<le> b * exp (- ?lam1 * sqrt ?d1)"
    using assms(5) by (rule mult_left_mono)
  have boost: "interactionBoost DEFAULT_SETTINGS (interactionCount e2) \<le>
               interactionBoost DEFAULT_SETTINGS (interactionCount e1)"
    using assms(9) by (rule interactionBoost_mono)
  let ?w1 = "toFixed2 (b * exp (- ?lam1 * sqrt ?d1) + interactionBoost DEFAULT_SETTINGS (interactionCount e1))"
  let ?w2 = "toFixed2 (b * exp (- ?lam2 * sqrt ?d2) + interactionBoost DEFAULT_SETTINGS (interactionCount e2))"
  have a1: "alpha DEFAULT_SETTINGS = 1" by (simp add: DEFAULT_SETTINGS_def)
  have c1: "calculateCurrentWeight DEFAULT_SETTINGS dat1 filePath now1 startOfYear1 = Some ?w1"
    using assms(1,3) d1 a1 by (simp add: calculateCurrentWeight_def Let_def not_less [symmetric])
  have c2: "calculateCurrentWeight DEFAULT_SETTINGS dat2 filePath now2 startOfYear2 = Some ?w2"
    using assms(2,4) d2 a1 by (simp add: calculateCurrentWeight_def Let_def not_less [symmetric])
  have "?w2 \<le> ?w1" using decay boost by (intro toFixed2_mono add_mono)
  with c1 c2 show ?thesis by blast
qed

text \<open>
  The seasonal rate on two days of the year: close to its maximum 0.06 on day 91 and to
  its minimum 0.04 on day 275.
\<close>

lemma cos_lower: "1 - x\<^sup>2 / 2 \<le> cos (x::real)"
proof -
  have "\<bar>sin (x / 2)\<bar> \<le> \<bar>x / 2\<bar>" by (rule abs_sin_x_le_abs_x)
  then have "(sin (x / 2))\<^sup>2 \<le> (x / 2)\<^sup>2" by (simp only: abs_le_square_iff)
  moreover have "cos x = 1 - 2 * (sin (x / 2))\<^sup>2"
    using cos_double_sin [of "x / 2"] by simp
  ultimately show ?thesis by (simp add: power2_eq_square)
qed

lemma exp_lower_power:
  assumes "0 < n" and "0 \<le> 1 + x / real n"
  shows "(1 + x / real n) ^ n \<le> exp x"
proof -
  have "(1 + x / real n) ^ n \<le> exp (x / real n) ^ n"
    using assms(2) by (intro power_mono) simp_all
  also have "\<dots> = exp (real n * (x / real n))" by (simp only: exp_of_nat_mult)
  also have "\<dots> = exp x" using assms(1) by simp
  finally show ?thesis .
qed

lemma sin_half_pi_minus: "sin (pi / 2 - y) = cos (y::real)"
  by (simp add: sin_diff)

lemma sin_three_half_pi_plus: "sin (3 / 2 * pi + y) = - cos (y::real)"
proof -
  have e: "3 / 2 * pi + y = (pi / 2 + y) + pi" by simp
  have "sin ((pi / 2 + y) + pi) = - sin (pi / 2 + y)" by (rule sin_periodic_pi)
  also have "sin (pi / 2 + y) = cos y" by (simp add: sin_add)
  finally show ?thesis by (simp only: e)
qed

lemma default_decayLambda: "decayLambda DEFAULT_SETTINGS = 0.05"
  by (simp add: DEFAULT_SETTINGS_def)

lemma cos_small_angle:
  assumes "0 < k" and "40 \<le> k"
  shows "0.99 \<le> cos (pi / k)"
proof -
  have "pi / k \<le> 4 / k" using pi_less_4 assms(1) by (simp add: divide_right_mono)
  moreover have "4 / k \<le> 1 / 10" using assms by (simp add: field_simps)
  ultimately have "pi / k \<le> 1 / 10" by linarith
  moreover have "0 \<le> pi / k" using assms(1) by simp
  ultimately have "(pi / k)\<^sup>2 \<le> (1 / 10)\<^sup>2" by (intro power_mono)
  then have "1 - (1 / 10)\<^sup>2 / 2 \<le> 1 - (pi / k)\<^sup>2 / 2" by simp
  also have "\<dots> \<le> cos (pi / k)" by (rule cos_lower)
  finally show ?thesis by (simp add: power2_eq_square)
qed

lemma rate_on_day_91:
  assumes "dayOfYear now startOfYear = 91"
  shows "0.0599 \<le> seasonalLambda DEFAULT_SETTINGS now startOfYear"
proof -
  have e: "2 * pi * real_of_int 91 / 365 = pi / 2 - pi / 730" by simp
  have s: "sin (2 * pi * real_of_int 91 / 365) = cos (pi / 730)"
    by (simp only: e sin_half_pi_minus)
  have lin: "0.0599 \<le> (0.05::real) + 0.01 * c" if "0.99 \<le> c" for c
    using that by simp
  have "0.99 \<le> cos (pi / 730)" by (rule cos_small_angle) simp_all
  then have "0.0599 \<le> (0.05::real) + 0.01 * cos (pi / 730)" by (rule lin)
  then show ?thesis by (simp only: seasonalLambda_def default_decayLambda assms s)
qed

lemma rate_on_day_275:
  assumes "dayOfYear now startOfYear = 275"
  shows "seasonalLambda DEFAULT_SETTINGS now startOfYear \<le> 0.0401"
proof -
  have e: "2 * pi * real_of_int 275 / 365 = 3 / 2 * pi + pi / 146" by simp
  have s: "sin (2 * pi * real_of_int 275 / 365) = - cos (pi / 146)"
    by (simp only: e sin_three_half_pi_plus)
  have lin: "(0.05::real) + 0.01 * (- c) \<le> 0.0401" if "0.99 \<le> c" for c
    using that by simp
  have "0.99 \<le> cos (pi / 146)" by (rule cos_small_angle) simp_all
  then have "(0.05::real) + 0.01 * (- cos (pi / 146)) \<le> 0.0401" by (rule lin)
  then show ?thesis by (simp only: seasonalLambda_def default_decayLambda assms s)
qed

lemma spring_rate: "0.0599 \<le> seasonalLambda DEFAULT_SETTINGS 1680307200000 1672444800000"
  by (rule rate_on_day_91) (simp add: dayOfYear_def dayMs_def)

lemma autumn_rate: "seasonalLambda DEFAULT_SETTINGS 1696204800000 1672444800000 \<le> 0.0401"
  by (rule rate_on_day_275) (simp add: dayOfYear_def dayMs_def)

text \<open>
  Two uses of the theorem: the note of \<open>agedData\<close> between 2 October 2023 and
  31 March 2024, while the rate rises; and the note with five interactions against the
  same note with none, at one instant.
\<close>

theorem current_weight_monotone_witness:
  "map_of agedData ''note.md'' =
     Some \<lparr>initialWeight = Some 1, lastUpdated = 1505347200000,
           interactionCount = 0, previousEngagement = None\<rparr> \<and>
   (1505347200000::int) \<le> 1696204800000 \<and>
   (1696204800000::int) - 1505347200000 \<le> 1711843200000 - 1505347200000 \<and>
   seasonalLambda DEFAULT_SETTINGS 1696204800000 1672444800000 \<le>
     seasonalLambda DEFAULT_SETTINGS 1711843200000 1703980800000 \<and>
   (\<exists>w1 w2.
      calculateCurrentWeight DEFAULT_SETTINGS agedData ''note.md'' 1696204800000 1672444800000 = Some w1 \<and>
      calculateCurrentWeight DEFAULT_SETTINGS agedData ''note.md'' 1711843200000 1703980800000 = Some w2 \<and>
      w2 \<le> w1) \<and>
   map_of busySampleData ''note.md'' =
     Some \<lparr>initialWeight = Some 0.5, lastUpdated = 1700000000000,
           interactionCount = 5, previousEngagement = None\<rparr> \<and>
   map_of sampleData ''note.md'' =
     Some \<lparr>initialWeight = Some 0.5, lastUpdated = 1700000000000,
           interactionCount = 0, previousEngagement = None\<rparr> \<and>
   (0::nat) \<le> 5 \<and>
   (\<exists>w1 w2.
      calculateCurrentWeight DEFAULT_SETTINGS busySampleData ''note.md'' 1700000000000 1672444800000 = Some w1 \<and>
      calculateCurrentWeight DEFAULT_SETTINGS sampleData ''note.md'' 1700000000000 1672444800000 = Some w2 \<and>
      w2 \<le> w1)"
proof -
  let ?aged = "\<lparr>initialWeight = Some (1::real), lastUpdated = 1505347200000,
           interactionCount = 0, previousEngagement = None\<rparr>"
  let ?busy = "\<lparr>initialWeight = Some (0.5::real), lastUpdated = 1700000000000,
           interactionCount = 5, previousEngagement = None\<rparr>"
  let ?calm = "\<lparr>initialWeight = Some (0.5::real), lastUpdated = 1700000000000,
           interactionCount = 0, previousEngagement = None\<rparr>"
  have m: "map_of agedData ''note.md'' = Some ?aged" by (simp add: agedData_def)
  have mb: "map_of busySampleData ''note.md'' = Some ?busy" by (simp add: busySampleData_def)
  have mc: "map_of sampleData ''note.md'' = Some ?calm" by (simp add: sampleData_def)
  have "dayOfYear 1696204800000 1672444800000 = 275" by (simp add: dayOfYear_def dayMs_def)
  then have lo: "seasonalLambda DEFAULT_SETTINGS 1696204800000 1672444800000 \<le> 0.0401"
    by (rule rate_on_day_275)
  have "dayOfYear 1711843200000 1703980800000 = 91" by (simp add: dayOfYear_def dayMs_def)
  then have hi: "0.0599 \<le> seasonalLambda DEFAULT_SETTINGS 1711843200000 1703980800000"
    by (rule rate_on_day_91)
  have rate: "seasonalLambda DEFAULT_SETTINGS 1696204800000 1672444800000 \<le>
     seasonalLambda DEFAULT_SETTINGS 1711843200000 1703980800000"
  proof -
    have "(0.0401::real) \<le> 0.0599" by simp
    with lo have "seasonalLambda DEFAULT_SETTINGS 1696204800000 1672444800000 \<le> 0.0599"
      by (rule order_trans)
    then show ?thesis using hi by (rule order_trans)
  qed
  have passing: "\<exists>w1 w2.
      calculateCurrentWeight DEFAULT_SETTINGS agedData ''note.md'' 1696204800000 1672444800000 = Some w1 \<and>
      calculateCurrentWeight DEFAULT_SETTINGS agedData ''note.md'' 1711843200000 1703980800000 = Some w2 \<and>
      w2 \<le> w1"
    using current_weight_monotone [OF m m _ _ _ _ _ rate, of 1] by simp
  have counting: "\<exists>w1 w2.
      calculateCurrentWeight DEFAULT_SETTINGS busySampleData ''note.md'' 1700000000000 1672444800000 = Some w1 \<and>
      calculateCurrentWeight DEFAULT_SETTINGS sampleData ''note.md'' 1700000000000 1672444800000 = Some w2 \<and>
      w2 \<le> w1"
    using current_weight_monotone [OF mb mc, of "0.5" 1700000000000 1700000000000 1672444800000 1672444800000]
    by simp
  from m mb mc rate passing counting show ?thesis by simp
qed

text \<open>
  The claim C2 as stated fails when the days elapse because time passes and the seasonal
  rate drops meanwhile. The note of \<open>agedData\<close>, untouched, has weight at most 0.08 on
  1 April 2023 (2025 days elapsed, rate near 0.06) and at least 0.13 on 2 October 2023
  (2209 days elapsed, rate near 0.04).
\<close>

lemma sqrt_2025: "sqrt 2025 = 45"
  by (rule real_sqrt_unique) simp_all

lemma sqrt_2209: "sqrt 2209 = 47"
  by (rule real_sqrt_unique) simp_all

lemma spring_weight:
  "\<exists>w. calculateCurrentWeight DEFAULT_SETTINGS agedData ''note.md'' 1680307200000 1672444800000 = Some w \<and> w \<le> 0.08"
proof -
  let ?lam = "seasonalLambda DEFAULT_SETTINGS 1680307200000 1672444800000"
  have c: "calculateCurrentWeight DEFAULT_SETTINGS agedData ''note.md'' 1680307200000 1672444800000 =
        Some (toFixed2 (exp (- ?lam * 45)))"
    by (simp add: calculateCurrentWeight_def agedData_def Let_def dayMs_def sqrt_2025 boost_zero defaults)
  have "(1 + 2.6955 / real 16) ^ 16 \<le> exp 2.6955" by (rule exp_lower_power) simp_all
  then have "(11.9::real) \<le> exp 2.6955" by (simp add: power_def)
  moreover have "2.6955 \<le> ?lam * 45" using spring_rate by simp
  then have "exp 2.6955 \<le> exp (?lam * 45)" by (simp only: exp_le_cancel_iff)
  ultimately have e: "11.9 \<le> exp (?lam * 45)" by (rule order_trans)
  have "exp (- ?lam * 45) = 1 / exp (?lam * 45)" by (simp add: exp_minus divide_inverse)
  also have "\<dots> \<le> 1 / 11.9" using e by (intro divide_left_mono) simp_all
  also have "\<dots> \<le> 0.0844" by simp
  finally have "toFixed2 (exp (- ?lam * 45)) \<le> toFixed2 0.0844" by (rule toFixed2_mono)
  also have "toFixed2 0.0844 = 0.08" by (simp add: toFixed2_def round_def)
  finally show ?thesis using c by simp
qed

lemma autumn_weight:
  "\<exists>w. calculateCurrentWeight DEFAULT_SETTINGS agedData ''note.md'' 1696204800000 1672444800000 = Some w \<and> 0.13 \<le> w"
proof -
  let ?lam = "seasonalLambda DEFAULT_SETTINGS 1696204800000 1672444800000"
  have c: "calculateCurrentWeight DEFAULT_SETTINGS agedData ''note.md'' 1696204800000 1672444800000 =
        Some (toFixed2 (exp (- ?lam * 47)))"
    by (simp add: calculateCurrentWeight_def agedData_def Let_def dayMs_def sqrt_2209 boost_zero defaults)
  have "(1 + (- 1.8847) / real 16) ^ 16 \<le> exp (- 1.8847)" by (rule exp_lower_power) simp_all
  then have "(0.125::real) \<le> exp (- 1.8847)" by (simp add: power_def)
  moreover have "- 1.8847 \<le> - ?lam * 47" using autumn_rate by simp
  then have "exp (- 1.8847) \<le> exp (- ?lam * 47)" by (simp only: exp_le_cancel_iff)
  ultimately have "0.125 \<le> exp (- ?lam * 47)" by (rule order_trans)
  then have "toFixed2 0.125 \<le> toFixed2 (exp (- ?lam * 47))" by (rule toFixed2_mono)
  moreover have "toFixed2 0.125 = 0.13" by (simp add: toFixed2_def round_def)
  ultimately show ?thesis using c by simp
qed

theorem current_weight_seasonal_counterexample:
  "1680307200000 - (1505347200000::int) < 1696204800000 - 1505347200000 \<and>
   calculateCurrentWeight DEFAULT_SETTINGS agedData ''note.md'' 1680307200000 1672444800000 \<noteq> None \<and>
   calculateCurrentWeight DEFAULT_SETTINGS agedData ''note.md'' 1696204800000 1672444800000 \<noteq> None \<and>
   the (calculateCurrentWeight DEFAULT_SETTINGS agedData ''note.md'' 1680307200000 1672444800000) <
   the (calculateCurrentWeight DEFAULT_SETTINGS agedData ''note.md'' 1696204800000 1672444800000)"
  using spring_weight autumn_weight by auto

section \<open>Results: text complexity\<close>

lemma single_letter_counts:
  "utf16 ''a'' = [97]"
  "trim [97] = [97]"
  "stripMarkdown [97] = [97]"
  "countSentences [97] = 2"
  "countChineseWords [97] = 0"
  "countEnglishWords [97] = 1"
  "englishSyllables [97] = 1"
proof -
  show "utf16 ''a'' = [97]" by (simp add: utf16_def)
  show "trim [97] = [97]" by (simp add: trim_def isWhiteSpace_def)
  show "stripMarkdown [97] = [97]"
    by (simp add: stripMarkdown_def codeBlock_re_def image_re_def link_re_def htmlTag_re_def
        heading_re_def listItem_re_def lit_def)
  show "countSentences [97] = 2"
    by (simp add: countSentences_def split_re_def matchRun_def isChineseStop_def
        isEnglishStop_def trim_def isWhiteSpace_def)
  show "countChineseWords [97] = 0" by (simp add: countChineseWords_def isCJK_def)
  show "countEnglishWords [97] = 1"
    by (simp add: countEnglishWords_def split_re_def matchRun_def isWhiteSpace_def)
  show "englishSyllables [97] = 1"
    by (simp add: englishSyllables_def split_re_def matchBoundaryOrSpace_def isWordBoundary_def
        isWordChar_def matchRun_def isWhiteSpace_def isCJK_def toLowerCase_def lowerUnit_def
        addSyllables_def isVowel_def endsWith_e_def)
qed

lemma normalizeGrade_range: "normalizeGrade g = Some n \<Longrightarrow> 0 \<le> n \<and> n < 1"
proof -
  assume a: "normalizeGrade g = Some n"
  show ?thesis
  proof (cases "g + 1 = 0")
    case True
    with a show ?thesis by (simp add: normalizeGrade_def)
  next
    case False
    let ?e = "exp (- 0.5 * (ln (g + 1) - 2.5))"
    have n: "n = 1 / (1 + ?e)" using a False by (simp add: normalizeGrade_def split: if_splits)
    have "0 < ?e" by simp
    then have "0 < 1 / (1 + ?e)" "1 / (1 + ?e) < 1" by (simp_all add: add_pos_pos)
    with n show ?thesis by simp
  qed
qed

lemma toFixed2_tenth: "toFixed2 0.1 = 0.1" and toFixed2_one: "toFixed2 1 = 1"
  by (simp_all add: toFixed2_def)

text \<open>
  Where the result is a number it is in the range, and blank input gives the floor.
\<close>

lemma complexity_range_unless_NaN:
  assumes "calculateComplexity txt = Some v"
  shows "0.1 \<le> v \<and> v \<le> 1"
proof (cases "trim txt = []")
  case True
  with assms show ?thesis by (simp add: calculateComplexity_def)
next
  case False
  from assms False obtain n where n: "0 \<le> n" "n < 1"
    and v: "v = toFixed2 (min (0.1 + (1 - 0.1) * n) 1)"
    by (auto simp: calculateComplexity_def Let_def split: option.splits dest: normalizeGrade_range)
  have "0.1 \<le> min (0.1 + (1 - 0.1) * n) 1" using n by simp
  then have "toFixed2 0.1 \<le> v" unfolding v by (rule toFixed2_mono)
  moreover have "v \<le> toFixed2 1" unfolding v by (rule toFixed2_mono) simp
  ultimately show ?thesis by (simp add: toFixed2_tenth toFixed2_one)
qed

lemma complexity_of_blank: "trim txt = [] \<Longrightarrow> calculateComplexity txt = Some 0.1"
  by (simp add: calculateComplexity_def)

text \<open>
  C4 on the code. For the one-letter text \<open>a\<close> the function counts 2 sentences (one by
  each of the two splits), 1 word and 1 syllable; the grade is
  \<open>0.39 / 2 + 11.8 - 15.59 = -3.595\<close>, the logarithm of \<open>-2.595\<close> is \<open>NaN\<close>, and
  \<open>NaN\<close> is what the function returns: no value in \<open>[0.1, 1]\<close>.
\<close>

theorem complexity_of_single_letter:
  "calculateComplexity (utf16 ''a'') = None"
proof -
  have "fkGradeOf 2 1 1 + 1 < 0" by (simp add: fkGradeOf_def)
  then have "normalizeGrade (fkGradeOf 2 1 1) = None" by (simp add: normalizeGrade_def)
  then show ?thesis by (simp add: calculateComplexity_def single_letter_counts Let_def)
qed

end
